theory Spec2Isabelle
  imports Main "HOL-Library.AList"
begin

section \<open>Values the handlers receive and produce\<close>

text \<open>
  The relay of \<^verbatim>\<open>app.py\<close> turns each inbound HTTP request into one or two calls
  against the orchestrator's variable store. The handlers see JSON values as Python
  objects: \<^verbatim>\<open>None\<close>, \<^verbatim>\<open>bool\<close>, \<^verbatim>\<open>int\<close>, \<^verbatim>\<open>str\<close>,
  \<^verbatim>\<open>list\<close> and \<^verbatim>\<open>dict\<close>. A \<^verbatim>\<open>dict\<close> is an association list whose first
  binding of a key is the one \<^verbatim>\<open>get\<close> finds. Numbers with a fraction are left out:
  the handlers would only test them against zero and format them.
\<close>

datatype json =
    JNull
  | JBool bool
  | JInt int
  | JString string
  | JArray "json list"
  | JObject "(string \<times> json) list"

text \<open>What the upstream answers: the status code and the body as \<^verbatim>\<open>response.json()\<close>
  reads it (\<open>None\<close> when the body is not JSON).\<close>

record response =
  status_code :: nat
  json_content :: "json option"

text \<open>Every exception the code can meet is a value. \<open>RequestException\<close> is what
  \<^verbatim>\<open>requests.get/patch/post\<close> raise when no response arrives, \<open>HTTPError\<close> what
  \<^verbatim>\<open>raise_for_status\<close> raises (it carries the response), \<open>HTTPException\<close> what
  \<^verbatim>\<open>request.get_json()\<close> raises on a body it refuses.\<close>

datatype py_exception =
    RequestException string
  | HTTPError response
  | JSONDecodeError
  | AttributeError string
  | HTTPException nat string

text \<open>Python's \<^verbatim>\<open>str()\<close> on a value that is not a \<^verbatim>\<open>str\<close>, and on an exception,
  belong to the interpreter and the libraries, not to the repository: they are parameters.\<close>

record builtins =
  str_json :: "json \<Rightarrow> string"
  str_exc :: "py_exception \<Rightarrow> string"

text \<open>\<^verbatim>\<open>f"{v}"\<close>: a \<^verbatim>\<open>str\<close> is inserted as it is.\<close>

fun py_format :: "builtins \<Rightarrow> json \<Rightarrow> string" where
  "py_format py (JString s) = s"
| "py_format py v = str_json py v"

text \<open>\<^verbatim>\<open>not v\<close> is the negation of this.\<close>

fun truthy :: "json \<Rightarrow> bool" where
  "truthy JNull = False"
| "truthy (JBool b) = b"
| "truthy (JInt n) = (n \<noteq> 0)"
| "truthy (JString s) = (s \<noteq> [])"
| "truthy (JArray xs) = (xs \<noteq> [])"
| "truthy (JObject kvs) = (kvs \<noteq> [])"

fun type_name :: "json \<Rightarrow> string" where
  "type_name JNull = ''NoneType''"
| "type_name (JBool b) = ''bool''"
| "type_name (JInt n) = ''int''"
| "type_name (JString s) = ''str''"
| "type_name (JArray xs) = ''list''"
| "type_name (JObject kvs) = ''dict''"

definition quoted :: "string \<Rightarrow> string" where
  "quoted s = CHR 0x27 # s @ [CHR 0x27]"

definition attribute_error :: "json \<Rightarrow> string \<Rightarrow> py_exception" where
  "attribute_error v a =
     AttributeError (quoted (type_name v) @ '' object has no attribute '' @ quoted a)"

text \<open>\<^verbatim>\<open>v.get(k, d)\<close>: only a \<^verbatim>\<open>dict\<close> has \<^verbatim>\<open>get\<close>.\<close>

fun dict_get :: "json \<Rightarrow> string \<Rightarrow> json \<Rightarrow> py_exception + json" where
  "dict_get (JObject kvs) k d = Inr (case map_of kvs k of None \<Rightarrow> d | Some v \<Rightarrow> v)"
| "dict_get v k d = Inl (attribute_error v ''get'')"

text \<open>\<^verbatim>\<open>str.lower\<close>. A string is a list of bytes here; the letters \<open>A\<close> to \<open>Z\<close> are
  lowered and every other byte is kept. The code only compares the result with
  \<^verbatim>\<open>"true"\<close>, and no character outside ASCII lowers to one of \<open>t\<close>, \<open>r\<close>, \<open>u\<close>,
  \<open>e\<close>, so the comparison comes out as in Python.\<close>

definition lower_char :: "char \<Rightarrow> char" where
  "lower_char c =
     (if (65::nat) \<le> of_char c \<and> of_char c \<le> (90::nat) then char_of (of_char c + (32::nat)) else c)"

definition lower :: "string \<Rightarrow> string" where
  "lower s = map lower_char s"

fun str_lower :: "json \<Rightarrow> py_exception + string" where
  "str_lower (JString s) = Inr (lower s)"
| "str_lower v = Inl (attribute_error v ''lower'')"

section \<open>Calls to the upstream\<close>

datatype http_method = GET | PATCH | POST

record http_request =
  rq_method :: http_method
  rq_url :: string
  rq_json :: "json option"
  rq_auth :: "string \<times> string"
  rq_headers :: "(string \<times> string) list"

text \<open>\<^verbatim>\<open>AIRFLOW_BASE_URL\<close>, \<^verbatim>\<open>AIRFLOW_USERNAME\<close>, \<^verbatim>\<open>AIRFLOW_PASSWORD\<close>: read once
  from the environment when the module is loaded.\<close>

record config =
  airflow_base_url :: string
  airflow_username :: string
  airflow_password :: string

text \<open>The upstream is any function from a request and the state of the outside world to
  an answer (or the exception of a call that got none) and the next state. A session
  keeps that state, every request sent so far, and the lines logged.\<close>

type_synonym 'w upstream = "http_request \<Rightarrow> 'w \<Rightarrow> (py_exception + response) \<times> 'w"

datatype log_level = INFO | ERROR

record 'w session =
  world :: 'w
  calls :: "http_request list"
  logs :: "(log_level \<times> string) list"

definition send :: "'w upstream \<Rightarrow> http_request \<Rightarrow> 'w session
    \<Rightarrow> (py_exception + response) \<times> 'w session" where
  "send u rq s =
     (case u rq (world s) of
        (res, w') \<Rightarrow> (res, s\<lparr>world := w', calls := calls s @ [rq]\<rparr>))"

definition logger_info :: "string \<Rightarrow> 'w session \<Rightarrow> 'w session" where
  "logger_info msg s = s\<lparr>logs := logs s @ [(INFO, msg)]\<rparr>"

definition logger_error :: "string \<Rightarrow> 'w session \<Rightarrow> 'w session" where
  "logger_error msg s = s\<lparr>logs := logs s @ [(ERROR, msg)]\<rparr>"

text \<open>\<^verbatim>\<open>response.raise_for_status()\<close> raises on the codes 400 to 599.\<close>

definition raise_for_status :: "response \<Rightarrow> py_exception + unit" where
  "raise_for_status r =
     (if 400 \<le> status_code r \<and> status_code r < 600 then Inl (HTTPError r) else Inr ())"

definition response_json :: "response \<Rightarrow> py_exception + json" where
  "response_json r = (case json_content r of None \<Rightarrow> Inl JSONDecodeError | Some j \<Rightarrow> Inr j)"

definition content_type_json :: "(string \<times> string) list" where
  "content_type_json = [(''Content-Type'', ''application/json'')]"

text \<open>\<^verbatim>\<open>f"{AIRFLOW_BASE_URL}/variables/{key}"\<close>\<close>

definition variable_url :: "config \<Rightarrow> string \<Rightarrow> string" where
  "variable_url cfg key = airflow_base_url cfg @ ''/variables/'' @ key"

definition patch_request :: "config \<Rightarrow> string \<Rightarrow> string \<Rightarrow> http_request" where
  "patch_request cfg key val =
     \<lparr>rq_method = PATCH,
      rq_url = variable_url cfg key,
      rq_json = Some (JObject [(''value'', JString val)]),
      rq_auth = (airflow_username cfg, airflow_password cfg),
      rq_headers = content_type_json\<rparr>"

definition post_request :: "config \<Rightarrow> string \<Rightarrow> string \<Rightarrow> http_request" where
  "post_request cfg key val =
     \<lparr>rq_method = POST,
      rq_url = airflow_base_url cfg @ ''/variables'',
      rq_json = Some (JObject [(''key'', JString key), (''value'', JString val)]),
      rq_auth = (airflow_username cfg, airflow_password cfg),
      rq_headers = content_type_json\<rparr>"

definition get_request :: "config \<Rightarrow> string \<Rightarrow> http_request" where
  "get_request cfg key =
     \<lparr>rq_method = GET,
      rq_url = variable_url cfg key,
      rq_json = None,
      rq_auth = (airflow_username cfg, airflow_password cfg),
      rq_headers = []\<rparr>"

text \<open>\<^verbatim>\<open>set_airflow_variable(key, value)\<close>: PATCH; on 404 the response is replaced by
  that of a POST; then \<^verbatim>\<open>raise_for_status\<close> and \<^verbatim>\<open>json()\<close> of whichever response is
  current.\<close>

definition set_airflow_variable :: "config \<Rightarrow> 'w upstream \<Rightarrow> string \<Rightarrow> string
    \<Rightarrow> 'w session \<Rightarrow> (py_exception + json) \<times> 'w session" where
  "set_airflow_variable cfg u key val s =
     (case send u (patch_request cfg key val) s of
        (Inl e, s1) \<Rightarrow> (Inl e, s1)
      | (Inr r1, s1) \<Rightarrow>
          (case (if status_code r1 = 404 then send u (post_request cfg key val) s1
                 else (Inr r1, s1)) of
             (Inl e, s2) \<Rightarrow> (Inl e, s2)
           | (Inr r, s2) \<Rightarrow>
               (case raise_for_status r of
                  Inl e \<Rightarrow> (Inl e, s2)
                | Inr _ \<Rightarrow> (response_json r, s2))))"

section \<open>The handlers\<close>

text \<open>What a handler returns: a body and a status code. A page is the template
  \<^verbatim>\<open>ACK_PAGE_TEMPLATE\<close> with the variables it is rendered with: the success branch
  shows the workflow, the unit and the timestamp, the failure branch the error.\<close>

datatype template_context =
    PageSuccess string string string
  | PageFailure string

datatype body = Json json | AckPage template_context

record http_reply =
  content :: body
  status :: nat

definition jsonify :: "(string \<times> json) list \<Rightarrow> nat \<Rightarrow> http_reply" where
  "jsonify kvs code = \<lparr>content = Json (JObject kvs), status = code\<rparr>"

definition render_template_string :: "template_context \<Rightarrow> nat \<Rightarrow> http_reply" where
  "render_template_string ctx code = \<lparr>content = AckPage ctx, status = code\<rparr>"

definition var_key :: "string \<Rightarrow> string" where
  "var_key dag = ''twilio_alert_enabled_'' @ dag"

text \<open>The message of a successful acknowledgment:
  \<^verbatim>\<open>f"Alerts paused for DAG '{dag_id}' based on acknowledgment from task '{task_id}'."\<close>\<close>

definition paused_message :: "builtins \<Rightarrow> json \<Rightarrow> json \<Rightarrow> string" where
  "paused_message py dag_id task_id =
     ''Alerts paused for DAG '' @ quoted (py_format py dag_id)
       @ '' based on acknowledgment from task '' @ quoted (py_format py task_id) @ ''.''"

text \<open>\<^verbatim>\<open>acknowledge_post\<close>. The argument \<open>got\<close> is what \<^verbatim>\<open>request.get_json()\<close> gives:
  the parsed body, or the exception it raises. The first definition is the body of the
  \<^verbatim>\<open>try\<close>, the second adds the \<^verbatim>\<open>except Exception\<close> clause.\<close>

definition acknowledge_post_try :: "builtins \<Rightarrow> config \<Rightarrow> 'w upstream
    \<Rightarrow> py_exception + json \<Rightarrow> 'w session \<Rightarrow> (py_exception + http_reply) \<times> 'w session" where
  "acknowledge_post_try py cfg u got s =
     (case got of
        Inl e \<Rightarrow> (Inl e, s)
      | Inr req \<Rightarrow>
          (case dict_get req ''dag_id'' JNull of
             Inl e \<Rightarrow> (Inl e, s)
           | Inr dag_id \<Rightarrow>
               (case dict_get req ''task_id'' (JString ''unknown'') of
                  Inl e \<Rightarrow> (Inl e, s)
                | Inr task_id \<Rightarrow>
                    if \<not> truthy dag_id then
                      (Inr (jsonify [(''status'', JString ''error''),
                                     (''message'', JString ''dag_id is required'')] 400), s)
                    else
                      (case set_airflow_variable cfg u (var_key (py_format py dag_id)) ''false'' s of
                         (Inl e, s1) \<Rightarrow> (Inl e, s1)
                       | (Inr _, s1) \<Rightarrow>
                           (Inr (jsonify
                                  [(''status'', JString ''success''),
                                   (''message'', JString (paused_message py dag_id task_id)),
                                   (''dag_id'', dag_id),
                                   (''task_id'', task_id)] 200),
                            logger_info (''Alert acknowledged for DAG ''
                              @ quoted (py_format py dag_id) @ '', Task ''
                              @ quoted (py_format py task_id)) s1)))))"

definition acknowledge_post :: "builtins \<Rightarrow> config \<Rightarrow> 'w upstream
    \<Rightarrow> py_exception + json \<Rightarrow> 'w session \<Rightarrow> http_reply \<times> 'w session" where
  "acknowledge_post py cfg u got s =
     (case acknowledge_post_try py cfg u got s of
        (Inr r, s1) \<Rightarrow> (r, s1)
      | (Inl e, s1) \<Rightarrow>
          (jsonify [(''status'', JString ''error''), (''message'', JString (str_exc py e))] 500,
           logger_error (''Error acknowledging alert: '' @ str_exc py e) s1))"

text \<open>\<^verbatim>\<open>acknowledge_get\<close>. \<open>args\<close> are the query parameters (\<^verbatim>\<open>request.args\<close>, all
  strings), \<open>now\<close> is \<^verbatim>\<open>datetime.now().strftime(...)\<close>.\<close>

definition acknowledge_get_try :: "config \<Rightarrow> 'w upstream \<Rightarrow> (string \<times> string) list
    \<Rightarrow> string \<Rightarrow> 'w session \<Rightarrow> (py_exception + http_reply) \<times> 'w session" where
  "acknowledge_get_try cfg u args now s =
     (let dag_id = map_of args ''dag_id'';
          task_id = (case map_of args ''task_id'' of None \<Rightarrow> ''unknown'' | Some t \<Rightarrow> t)
      in case dag_id of
           None \<Rightarrow> (Inr (render_template_string (PageFailure ''Missing dag_id parameter'') 400), s)
         | Some dag \<Rightarrow>
             if dag = [] then
               (Inr (render_template_string (PageFailure ''Missing dag_id parameter'') 400), s)
             else
               (case set_airflow_variable cfg u (var_key dag) ''false'' s of
                  (Inl e, s1) \<Rightarrow> (Inl e, s1)
                | (Inr _, s1) \<Rightarrow>
                    (Inr (render_template_string (PageSuccess dag task_id now) 200),
                     logger_info (''Alert acknowledged via GET for DAG '' @ quoted dag
                       @ '', Task '' @ quoted task_id) s1)))"

definition acknowledge_get :: "builtins \<Rightarrow> config \<Rightarrow> 'w upstream \<Rightarrow> (string \<times> string) list
    \<Rightarrow> string \<Rightarrow> 'w session \<Rightarrow> http_reply \<times> 'w session" where
  "acknowledge_get py cfg u args now s =
     (case acknowledge_get_try cfg u args now s of
        (Inr r, s1) \<Rightarrow> (r, s1)
      | (Inl e, s1) \<Rightarrow>
          (render_template_string (PageFailure (str_exc py e)) 500,
           logger_error (''Error acknowledging alert via GET: '' @ str_exc py e) s1))"

text \<open>\<^verbatim>\<open>get_acknowledgment_status(dag_id)\<close>; \<open>dag\<close> is the path parameter.\<close>

definition get_acknowledgment_status_try :: "config \<Rightarrow> 'w upstream \<Rightarrow> string
    \<Rightarrow> 'w session \<Rightarrow> (py_exception + http_reply) \<times> 'w session" where
  "get_acknowledgment_status_try cfg u dag s =
     (case send u (get_request cfg (var_key dag)) s of
        (Inl e, s1) \<Rightarrow> (Inl e, s1)
      | (Inr r, s1) \<Rightarrow>
          if status_code r = 404 then
            (Inr (jsonify [(''dag_id'', JString dag),
                           (''alerts_enabled'', JBool True),
                           (''acknowledged'', JBool False)] 200), s1)
          else
            (case raise_for_status r of
               Inl e \<Rightarrow> (Inl e, s1)
             | Inr _ \<Rightarrow>
                 (case response_json r of
                    Inl e \<Rightarrow> (Inl e, s1)
                  | Inr var_data \<Rightarrow>
                      (case dict_get var_data ''value'' (JString ''true'') of
                         Inl e \<Rightarrow> (Inl e, s1)
                       | Inr v \<Rightarrow>
                           (case str_lower v of
                              Inl e \<Rightarrow> (Inl e, s1)
                            | Inr l \<Rightarrow>
                                (let alerts_enabled = (l = ''true'')
                                 in (Inr (jsonify [(''dag_id'', JString dag),
                                                   (''alerts_enabled'', JBool alerts_enabled),
                                                   (''acknowledged'', JBool (\<not> alerts_enabled))]
                                            200), s1)))))))"

definition get_acknowledgment_status :: "builtins \<Rightarrow> config \<Rightarrow> 'w upstream \<Rightarrow> string
    \<Rightarrow> 'w session \<Rightarrow> http_reply \<times> 'w session" where
  "get_acknowledgment_status py cfg u dag s =
     (case get_acknowledgment_status_try cfg u dag s of
        (Inr r, s1) \<Rightarrow> (r, s1)
      | (Inl e, s1) \<Rightarrow>
          (jsonify [(''success'', JBool False), (''error'', JString (str_exc py e))] 500,
           logger_error (''Error getting acknowledgment status: '' @ str_exc py e) s1))"

text \<open>\<^verbatim>\<open>reset_acknowledgment(dag_id)\<close>.\<close>

definition reset_acknowledgment_try :: "config \<Rightarrow> 'w upstream \<Rightarrow> string
    \<Rightarrow> 'w session \<Rightarrow> (py_exception + http_reply) \<times> 'w session" where
  "reset_acknowledgment_try cfg u dag s =
     (case set_airflow_variable cfg u (var_key dag) ''true'' s of
        (Inl e, s1) \<Rightarrow> (Inl e, s1)
      | (Inr _, s1) \<Rightarrow>
          (Inr (jsonify [(''success'', JBool True),
                         (''message'', JString (''Alerts re-enabled for DAG '' @ quoted dag))] 200),
           logger_info (''Alerts re-enabled for DAG '' @ quoted dag) s1))"

definition reset_acknowledgment :: "builtins \<Rightarrow> config \<Rightarrow> 'w upstream \<Rightarrow> string
    \<Rightarrow> 'w session \<Rightarrow> http_reply \<times> 'w session" where
  "reset_acknowledgment py cfg u dag s =
     (case reset_acknowledgment_try cfg u dag s of
        (Inr r, s1) \<Rightarrow> (r, s1)
      | (Inl e, s1) \<Rightarrow>
          (jsonify [(''success'', JBool False), (''error'', JString (str_exc py e))] 500,
           logger_error (''Error resetting acknowledgment: '' @ str_exc py e) s1))"

section \<open>The orchestrator's variable store\<close>

text \<open>
  Modelled from the spec: the orchestrator is an external service, and the spec gives its
  interface: \<^verbatim>\<open>GET /variables/{key}\<close> (404 if absent), \<^verbatim>\<open>PATCH /variables/{key}\<close>
  (404 if absent), \<^verbatim>\<open>POST /variables\<close> to create \<^verbatim>\<open>{key, value}\<close>. A POST of a
  key that exists replaces its value. A call may also not reach the store: \<open>pending\<close>
  lists, for the calls to come, whether the store serves the call (\<open>None\<close>, also when
  the list is empty), the connection fails, or the server fails with a status from 500 to
  599 and a body that is not JSON. The status 404 comes from the store alone.
\<close>

datatype fault = ConnectionFailure string | ServerError nat

record store =
  variables :: "(string \<times> json) list"
  pending :: "fault option list"

text \<open>
  Modelled from the spec: the variable that the URL of a request names. The relay pastes
  the key into the URL as it is, and the URL is read as HTTP reads it: the text after
  \<^verbatim>\<open>/variables/\<close> ends at the first \<open>?\<close> or \<open>#\<close> (what follows is a query or a
  fragment), the dot segments of the path are removed, and what is left names a variable
  when it is one segment that is not empty; its percent escapes are decoded. A key made of
  letters, digits, \<open>-\<close>, \<open>.\<close>, \<open>_\<close> and \<open>~\<close> names itself; with other
  characters the URL can name another variable than the key, or none.
\<close>

definition url_path :: "string \<Rightarrow> string" where
  "url_path u = takeWhile (\<lambda>c. c \<noteq> CHR ''?'' \<and> c \<noteq> CHR ''#'') u"

fun split_slash :: "string \<Rightarrow> string list" where
  "split_slash [] = [[]]"
| "split_slash (c # cs) =
     (if c = CHR ''/'' then [] # split_slash cs
      else (case split_slash cs of [] \<Rightarrow> [[c]] | x # xs \<Rightarrow> (c # x) # xs))"

fun remove_dot_segments :: "string list \<Rightarrow> string list \<Rightarrow> string list option" where
  "remove_dot_segments seen [] = Some (rev seen)"
| "remove_dot_segments seen (x # xs) =
     (if x = ''.'' then remove_dot_segments seen xs
      else if x = ''..'' then
        (case seen of [] \<Rightarrow> None | y # ys \<Rightarrow> remove_dot_segments ys xs)
      else remove_dot_segments (x # seen) xs)"

definition hex_value :: "char \<Rightarrow> nat option" where
  "hex_value c =
     (if (48::nat) \<le> of_char c \<and> of_char c \<le> (57::nat) then Some (of_char c - 48)
      else if (65::nat) \<le> of_char c \<and> of_char c \<le> (70::nat) then Some (of_char c - 55)
      else if (97::nat) \<le> of_char c \<and> of_char c \<le> (102::nat) then Some (of_char c - 87)
      else None)"

fun percent_decode :: "string \<Rightarrow> string" where
  "percent_decode (c # h # l # cs) =
     (case (hex_value h, hex_value l) of
        (Some a, Some b) \<Rightarrow>
          if c = CHR ''%'' then char_of (16 * a + b) # percent_decode cs
          else c # percent_decode (h # l # cs)
      | _ \<Rightarrow> c # percent_decode (h # l # cs))"
| "percent_decode cs = cs"

definition route_key :: "string \<Rightarrow> string option" where
  "route_key rest =
     (case remove_dot_segments [] (split_slash (url_path rest)) of
        None \<Rightarrow> None
      | Some segments \<Rightarrow>
          if length segments = 1 \<and> hd segments \<noteq> [] then Some (percent_decode (hd segments))
          else None)"

definition variable_of_url :: "config \<Rightarrow> string \<Rightarrow> string option" where
  "variable_of_url cfg u =
     (let p = airflow_base_url cfg @ ''/variables/''
      in if take (length p) u = p then route_key (drop (length p) u) else None)"

definition plain_response :: "nat \<Rightarrow> response" where
  "plain_response n = \<lparr>status_code = n, json_content = None\<rparr>"

definition variable_response :: "string \<Rightarrow> json \<Rightarrow> response" where
  "variable_response k v =
     \<lparr>status_code = 200, json_content = Some (JObject [(''key'', JString k), (''value'', v)])\<rparr>"

definition body_field :: "json option \<Rightarrow> string \<Rightarrow> json option" where
  "body_field j k = (case j of Some (JObject fs) \<Rightarrow> map_of fs k | _ \<Rightarrow> None)"

text \<open>Modelled from the spec: what the store does with a call that reaches it.\<close>

definition serve :: "config \<Rightarrow> http_request \<Rightarrow> (string \<times> json) list
    \<Rightarrow> response \<times> (string \<times> json) list" where
  "serve cfg rq vars =
     (case rq_method rq of
        GET \<Rightarrow>
          (case variable_of_url cfg (rq_url rq) of
             None \<Rightarrow> (plain_response 404, vars)
           | Some k \<Rightarrow>
               (case map_of vars k of
                  None \<Rightarrow> (plain_response 404, vars)
                | Some v \<Rightarrow> (variable_response k v, vars)))
      | PATCH \<Rightarrow>
          (case variable_of_url cfg (rq_url rq) of
             None \<Rightarrow> (plain_response 404, vars)
           | Some k \<Rightarrow>
               (case map_of vars k of
                  None \<Rightarrow> (plain_response 404, vars)
                | Some old \<Rightarrow>
                    (case body_field (rq_json rq) ''value'' of
                       None \<Rightarrow> (plain_response 400, vars)
                     | Some v \<Rightarrow> (variable_response k v, AList.update k v vars))))
      | POST \<Rightarrow>
          if rq_url rq = airflow_base_url cfg @ ''/variables'' then
            (case (body_field (rq_json rq) ''key'', body_field (rq_json rq) ''value'') of
               (Some (JString k), Some v) \<Rightarrow> (variable_response k v, AList.update k v vars)
             | _ \<Rightarrow> (plain_response 400, vars))
          else (plain_response 404, vars))"

text \<open>Modelled from the spec: the orchestrator as an upstream of the relay. A pending fault
  answers the call in place of the store and leaves the variables as they are.\<close>

definition airflow :: "config \<Rightarrow> store upstream" where
  "airflow cfg rq st =
     (case pending st of
        Some (ConnectionFailure m) # fs \<Rightarrow> (Inl (RequestException m), st\<lparr>pending := fs\<rparr>)
      | Some (ServerError n) # fs \<Rightarrow>
          (Inr (plain_response (500 + n mod 100)), st\<lparr>pending := fs\<rparr>)
      | _ \<Rightarrow>
          (case serve cfg rq (variables st) of
             (r, vars') \<Rightarrow> (Inr r, \<lparr>variables = vars', pending = tl (pending st)\<rparr>)))"

text \<open>The next call reaches the store.\<close>

definition served_next :: "store \<Rightarrow> bool" where
  "served_next st = (case pending st of [] \<Rightarrow> True | f # fs \<Rightarrow> f = None)"

section \<open>Concrete values for the examples\<close>

text \<open>The defaults of the three environment variables.\<close>

definition default_config :: config where
  "default_config =
     \<lparr>airflow_base_url = ''http://localhost:8080/api/v1'',
      airflow_username = ''airflow'',
      airflow_password = ''airflow''\<rparr>"

definition example_str_exc :: "py_exception \<Rightarrow> string" where
  "example_str_exc e =
     (case e of
        RequestException m \<Rightarrow> m
      | HTTPError r \<Rightarrow> ''HTTPError''
      | JSONDecodeError \<Rightarrow> ''Expecting value''
      | AttributeError m \<Rightarrow> m
      | HTTPException n m \<Rightarrow> m)"

definition example_builtins :: builtins where
  "example_builtins = \<lparr>str_json = type_name, str_exc = example_str_exc\<rparr>"

definition session_of :: "(string \<times> json) list \<Rightarrow> fault option list \<Rightarrow> store session" where
  "session_of vars fs = \<lparr>world = \<lparr>variables = vars, pending = fs\<rparr>, calls = [], logs = []\<rparr>"

section \<open>Vocabulary of the claims\<close>

text \<open>An upstream answer is an error when \<^verbatim>\<open>raise_for_status\<close> raises on it, not-found
  when it is a response with status 404, and a success when it is a response that is not
  an error and whose body is JSON (a malformed response counts as an upstream failure).\<close>

definition error_status :: "response \<Rightarrow> bool" where
  "error_status r = (400 \<le> status_code r \<and> status_code r < 600)"

fun not_found :: "py_exception + response \<Rightarrow> bool" where
  "not_found (Inr r) = (status_code r = 404)"
| "not_found (Inl e) = False"

fun succeeded :: "py_exception + response \<Rightarrow> bool" where
  "succeeded (Inr r) = (\<not> error_status r \<and> json_content r \<noteq> None)"
| "succeeded (Inl e) = False"

text \<open>A valid workflow identifier: not empty, and made of the characters that stand for
  themselves in a URL (letters, digits, \<open>-\<close>, \<open>.\<close>, \<open>_\<close>, \<open>~\<close>), as the
  identifiers of the orchestrator's workflows are.\<close>

definition url_safe_char :: "char \<Rightarrow> bool" where
  "url_safe_char c =
     (((48::nat) \<le> of_char c \<and> of_char c \<le> (57::nat))
      \<or> ((65::nat) \<le> of_char c \<and> of_char c \<le> (90::nat))
      \<or> ((97::nat) \<le> of_char c \<and> of_char c \<le> (122::nat))
      \<or> c = CHR ''-'' \<or> c = CHR ''.'' \<or> c = CHR ''_'' \<or> c = CHR ''~'')"

definition valid_dag_id :: "string \<Rightarrow> bool" where
  "valid_dag_id dag = (dag \<noteq> [] \<and> list_all url_safe_char dag)"

text \<open>The shape of a body: the keys of a JSON object, or a page.\<close>

datatype shape = Keys "string list" | Page | Other

fun shape_of :: "body \<Rightarrow> shape" where
  "shape_of (Json (JObject kvs)) = Keys (map fst kvs)"
| "shape_of (Json v) = Other"
| "shape_of (AckPage ctx) = Page"

section \<open>Properties\<close>

lemma send_world:
  "send u rq s = (a, s1) \<Longrightarrow>
     calls s1 = calls s @ [rq] \<and> logs s1 = logs s \<and> (a, world s1) = u rq (world s)"
  by (auto simp: send_def split: prod.splits)

lemma raise_for_status_error:
  "raise_for_status r = (if error_status r then Inl (HTTPError r) else Inr ())"
  by (simp add: raise_for_status_def error_status_def)

lemma set_airflow_variable_calls:
  "\<exists>rest. calls (snd (set_airflow_variable cfg u key val s)) =
     calls s @ patch_request cfg key val # rest"
proof -
  obtain a1 s1 where p: "send u (patch_request cfg key val) s = (a1, s1)" by force
  obtain a2 s2 where q: "send u (post_request cfg key val) s1 = (a2, s2)" by force
  from send_world [OF p] send_world [OF q] p q show ?thesis
    by (auto simp: set_airflow_variable_def split: sum.splits)
qed

subsection \<open>The store\<close>

lemma url_safe_char_plain:
  "url_safe_char c \<Longrightarrow>
     c \<noteq> CHR ''?'' \<and> c \<noteq> CHR ''#'' \<and> c \<noteq> CHR ''/'' \<and> c \<noteq> CHR ''%''"
  by (auto simp: url_safe_char_def)

lemma split_slash_plain: "CHR ''/'' \<notin> set k \<Longrightarrow> split_slash k = [k]"
  by (induction k) auto

lemma percent_decode_plain: "CHR ''%'' \<notin> set k \<Longrightarrow> percent_decode k = k"
  by (induction k rule: percent_decode.induct) (auto split: option.splits)

lemma route_key_safe:
  assumes "list_all url_safe_char k" and "k \<noteq> []" and "k \<noteq> ''.''" and "k \<noteq> ''..''"
  shows "route_key k = Some k"
proof -
  from assms(1) have plain:
    "\<forall>c\<in>set k. c \<noteq> CHR ''?'' \<and> c \<noteq> CHR ''#'' \<and> c \<noteq> CHR ''/'' \<and> c \<noteq> CHR ''%''"
    using url_safe_char_plain by (auto simp: list_all_iff)
  then have "url_path k = k"
    by (simp add: url_path_def takeWhile_eq_all_conv)
  moreover from plain have "split_slash k = [k]"
    by (intro split_slash_plain) auto
  moreover from plain have "percent_decode k = k"
    by (intro percent_decode_plain) auto
  ultimately show ?thesis
    using assms(2-4) by (simp add: route_key_def)
qed

lemma route_key_var_key:
  assumes "list_all url_safe_char dag"
  shows "route_key (var_key dag) = Some (var_key dag)"
proof -
  have "list_all url_safe_char ''twilio_alert_enabled_''"
    by (simp add: url_safe_char_def)
  with assms have "list_all url_safe_char (var_key dag)"
    by (simp add: var_key_def list_all_iff)
  then show ?thesis
    by (rule route_key_safe) (simp_all add: var_key_def)
qed

lemma route_key_etl:
  "route_key ''twilio_alert_enabled_etl'' = Some ''twilio_alert_enabled_etl''"
  using route_key_var_key [of "''etl''"] by (simp add: var_key_def url_safe_char_def)

lemma route_key_k: "route_key ''k'' = Some ''k''"
  by (rule route_key_safe) (simp_all add: url_safe_char_def)

text \<open>With a \<open>?\<close> in the key, the URL names the variable of the text before it.\<close>

lemma route_key_query: "route_key (var_key ''a?b'') = Some (var_key ''a'')"
proof -
  have "percent_decode ''twilio_alert_enabled_a'' = ''twilio_alert_enabled_a''"
    by (rule percent_decode_plain) simp
  then show ?thesis
    by (simp add: route_key_def url_path_def var_key_def)
qed

lemma variable_of_url_key: "variable_of_url cfg (variable_url cfg k) = route_key k"
proof -
  have "take (length (b @ p)) (b @ p @ k) = b @ p \<and> drop (length (b @ p)) (b @ p @ k) = k"
    for b p :: string
    by simp
  then show ?thesis
    unfolding variable_of_url_def variable_url_def Let_def by presburger
qed

lemma serve_patch:
  "serve cfg (patch_request cfg k v) vars =
     (case route_key k of
        None \<Rightarrow> (plain_response 404, vars)
      | Some k' \<Rightarrow>
          (case map_of vars k' of
             None \<Rightarrow> (plain_response 404, vars)
           | Some old \<Rightarrow> (variable_response k' (JString v), AList.update k' (JString v) vars)))"
  by (simp add: serve_def patch_request_def variable_of_url_key body_field_def
      split: option.splits)

lemma serve_post:
  "serve cfg (post_request cfg k v) vars =
     (variable_response k (JString v), AList.update k (JString v) vars)"
  by (simp add: serve_def post_request_def body_field_def)

lemma serve_get:
  "serve cfg (get_request cfg k) vars =
     (case route_key k of
        None \<Rightarrow> (plain_response 404, vars)
      | Some k' \<Rightarrow>
          (case map_of vars k' of
             None \<Rightarrow> (plain_response 404, vars)
           | Some v \<Rightarrow> (variable_response k' v, vars)))"
  by (simp add: serve_def get_request_def variable_of_url_key split: option.splits)

lemma airflow_patch_succeeded:
  assumes "airflow cfg (patch_request cfg k v) st = (a, st')"
      and "succeeded a"
  shows "\<exists>k'. route_key k = Some k' \<and> map_of (variables st') k' = Some (JString v)"
  using assms
  by (auto simp: airflow_def serve_patch plain_response_def variable_response_def
      error_status_def update_conv'
      split: list.splits option.splits fault.splits prod.splits)

lemma airflow_patch_not_found:
  assumes "airflow cfg (patch_request cfg k v) st = (a, st')"
      and "not_found a"
  shows "variables st' = variables st
       \<and> (\<forall>k'. route_key k = Some k' \<longrightarrow> map_of (variables st) k' = None)"
  using assms
  by (auto simp: airflow_def serve_patch plain_response_def variable_response_def
      split: list.splits option.splits fault.splits prod.splits)

lemma airflow_post_succeeded:
  assumes "airflow cfg (post_request cfg k v) st = (a, st')"
      and "succeeded a"
  shows "variables st' = AList.update k (JString v) (variables st)"
  using assms
  by (auto simp: airflow_def serve_post plain_response_def variable_response_def
      error_status_def
      split: list.splits option.splits fault.splits prod.splits)

text \<open>After a write that returned, the variable that the URL of the key names holds the
  value, or (when the URL names another variable than the key) does not exist.\<close>

lemma set_airflow_variable_stored:
  assumes "set_airflow_variable cfg (airflow cfg) k v s = (Inr j, s')"
      and "route_key k = Some k'"
  shows "map_of (variables (world s')) k' = Some (JString v)
       \<or> (k' \<noteq> k \<and> map_of (variables (world s')) k' = None)"
proof -
  obtain a1 s1 where p: "send (airflow cfg) (patch_request cfg k v) s = (a1, s1)" by force
  obtain a2 s2 where q: "send (airflow cfg) (post_request cfg k v) s1 = (a2, s2)" by force
  have pw: "airflow cfg (patch_request cfg k v) (world s) = (a1, world s1)"
    using send_world [OF p] by simp
  have qw: "airflow cfg (post_request cfg k v) (world s1) = (a2, world s2)"
    using send_world [OF q] by simp
  show ?thesis
  proof (cases "not_found a1")
    case True
    with assms(1) p q have "succeeded a2" and e: "s' = s2"
      by (auto simp: set_airflow_variable_def raise_for_status_error response_json_def
          split: sum.splits if_splits option.splits)
    from airflow_post_succeeded [OF qw this(1)] airflow_patch_not_found [OF pw True] assms(2)
    have "variables (world s2) = AList.update k (JString v) (variables (world s))"
      and "map_of (variables (world s)) k' = None"
      by simp_all
    with e show ?thesis by (simp add: update_conv')
  next
    case False
    with assms(1) p have "succeeded a1" and "s' = s1"
      by (auto simp: set_airflow_variable_def raise_for_status_error response_json_def
          split: sum.splits if_splits option.splits)
    with airflow_patch_succeeded [OF pw] assms(2) show ?thesis by auto
  qed
qed

lemma set_airflow_variable_served:
  assumes "pending (world s) = []"
  shows "\<exists>j. fst (set_airflow_variable cfg (airflow cfg) k v s) = Inr j"
  using assms
  by (auto simp: set_airflow_variable_def send_def airflow_def serve_patch serve_post
      plain_response_def variable_response_def raise_for_status_def response_json_def
      split: option.splits)

lemma status_of_stored:
  assumes "route_key (var_key dag) = Some k'"
      and "map_of (variables (world s)) k' = Some (JString v)"
      and "served_next (world s)"
  shows "fst (get_acknowledgment_status py cfg (airflow cfg) dag s) =
           jsonify [(''dag_id'', JString dag), (''alerts_enabled'', JBool (lower v = ''true'')),
                    (''acknowledged'', JBool (lower v \<noteq> ''true''))] 200"
  using assms
  by (auto simp: get_acknowledgment_status_def get_acknowledgment_status_try_def send_def
      airflow_def serve_get served_next_def variable_response_def raise_for_status_def
      response_json_def Let_def
      split: list.splits)

lemma status_of_absent:
  assumes "\<forall>k'. route_key (var_key dag) = Some k' \<longrightarrow> map_of (variables (world s)) k' = None"
      and "served_next (world s)"
  shows "fst (get_acknowledgment_status py cfg (airflow cfg) dag s) =
           jsonify [(''dag_id'', JString dag), (''alerts_enabled'', JBool True),
                    (''acknowledged'', JBool False)] 200"
  using assms
  by (auto simp: get_acknowledgment_status_def get_acknowledgment_status_try_def send_def
      airflow_def serve_get served_next_def plain_response_def
      split: list.splits option.splits)

lemma acknowledge_post_200:
  assumes "acknowledge_post py cfg u (Inr (JObject obj)) s = (r, s1)"
      and "status r = 200"
  shows "\<exists>d j s0. map_of obj ''dag_id'' = Some d \<and> truthy d
           \<and> set_airflow_variable cfg u (var_key (py_format py d)) ''false'' s = (Inr j, s0)
           \<and> world s1 = world s0"
  using assms
  by (auto simp: acknowledge_post_def acknowledge_post_try_def jsonify_def logger_info_def
      split: option.splits sum.splits prod.splits if_splits)

lemma reset_acknowledgment_200:
  assumes "reset_acknowledgment py cfg u dag s = (r, s1)"
      and "status r = 200"
  shows "\<exists>j s0. set_airflow_variable cfg u (var_key dag) ''true'' s = (Inr j, s0)
           \<and> world s1 = world s0"
  using assms
  by (auto simp: reset_acknowledgment_def reset_acknowledgment_try_def jsonify_def
      logger_info_def
      split: sum.splits prod.splits)

subsection \<open>Lower case\<close>

lemma lower_char_t: "lower_char c = CHR ''t'' \<longleftrightarrow> c = CHR ''t'' \<or> c = CHR ''T''"
  by (cases c) (auto simp: lower_char_def char_of_def bit_Suc_0_iff)

lemma lower_char_r: "lower_char c = CHR ''r'' \<longleftrightarrow> c = CHR ''r'' \<or> c = CHR ''R''"
  by (cases c) (auto simp: lower_char_def char_of_def bit_Suc_0_iff)

lemma lower_char_u: "lower_char c = CHR ''u'' \<longleftrightarrow> c = CHR ''u'' \<or> c = CHR ''U''"
  by (cases c) (auto simp: lower_char_def char_of_def bit_Suc_0_iff)

lemma lower_char_e: "lower_char c = CHR ''e'' \<longleftrightarrow> c = CHR ''e'' \<or> c = CHR ''E''"
  by (cases c) (auto simp: lower_char_def char_of_def bit_Suc_0_iff)

lemma lower_is_true:
  "lower v = ''true'' \<longleftrightarrow>
     (\<exists>a b c d. v = [a, b, c, d] \<and> a \<in> {CHR ''t'', CHR ''T''} \<and> b \<in> {CHR ''r'', CHR ''R''}
        \<and> c \<in> {CHR ''u'', CHR ''U''} \<and> d \<in> {CHR ''e'', CHR ''E''})"
proof -
  have "lower v = ''true'' \<longleftrightarrow>
     (\<exists>a b c d. v = [a, b, c, d] \<and> lower_char a = CHR ''t'' \<and> lower_char b = CHR ''r''
        \<and> lower_char c = CHR ''u'' \<and> lower_char d = CHR ''e'')"
    by (auto simp: lower_def map_eq_Cons_conv)
  then show ?thesis
    by (simp add: lower_char_t lower_char_r lower_char_u lower_char_e)
qed

lemma lower_false: "lower ''false'' = ''false''"
  by (simp add: lower_def lower_char_def)

lemma lower_true: "lower ''true'' = ''true''"
  by (simp add: lower_def lower_char_def)

lemmas run_defs =
  acknowledge_post_def acknowledge_post_try_def acknowledge_get_def acknowledge_get_try_def
  get_acknowledgment_status_def get_acknowledgment_status_try_def
  reset_acknowledgment_def reset_acknowledgment_try_def
  set_airflow_variable_def send_def airflow_def serve_patch serve_post serve_get
  route_key_etl route_key_k
  session_of_def jsonify_def render_template_string_def plain_response_def
  variable_response_def raise_for_status_def response_json_def served_next_def
  logger_info_def logger_error_def var_key_def

section \<open>The claims\<close>

text \<open>
  C1. \<^verbatim>\<open>set_airflow_variable\<close> first sends a PATCH of the variable. If and only if the
  answer is not-found (404) it sends a POST with the same key and value. It returns a
  result exactly when the PATCH succeeds, or the PATCH is not found and the POST succeeds;
  an error status of the response that counts (the PATCH's, or the POST's after a 404) is
  raised as an \<open>HTTPError\<close> carrying that response, and a call that got no response
  raises its own exception.
\<close>

theorem set_airflow_variable_update_or_create:
  assumes "send u (patch_request cfg key val) s = (a1, s1)"
      and "send u (post_request cfg key val) s1 = (a2, s2)"
  shows "calls (snd (set_airflow_variable cfg u key val s)) =
           calls s @ (if not_found a1 then [patch_request cfg key val, post_request cfg key val]
                      else [patch_request cfg key val])
       \<and> ((\<exists>j. fst (set_airflow_variable cfg u key val s) = Inr j)
            \<longleftrightarrow> succeeded a1 \<or> (not_found a1 \<and> succeeded a2))
       \<and> (\<forall>r. (\<not> not_found a1 \<and> a1 = Inr r \<and> error_status r)
              \<or> (not_found a1 \<and> a2 = Inr r \<and> error_status r)
            \<longrightarrow> fst (set_airflow_variable cfg u key val s) = Inl (HTTPError r))
       \<and> (\<forall>e. a1 = Inl e \<or> (not_found a1 \<and> a2 = Inl e)
            \<longrightarrow> fst (set_airflow_variable cfg u key val s) = Inl e)"
proof -
  have c1: "calls s1 = calls s @ [patch_request cfg key val]"
    using send_world [OF assms(1)] by simp
  have c2: "calls s2 = calls s1 @ [post_request cfg key val]"
    using send_world [OF assms(2)] by simp
  show ?thesis
  proof (cases a1)
    case (Inl e)
    then show ?thesis
      using assms(1) c1 by (simp add: set_airflow_variable_def)
  next
    case (Inr r1)
    show ?thesis
    proof (cases "status_code r1 = 404")
      case False
      then show ?thesis
        using Inr assms(1) c1
        by (auto simp: set_airflow_variable_def raise_for_status_error response_json_def
            split: option.splits)
    next
      case True
      then have e1: "error_status r1" by (simp add: error_status_def)
      show ?thesis
      proof (cases a2)
        case (Inl e)
        then show ?thesis
          using Inr True e1 assms c1 c2 by (simp add: set_airflow_variable_def)
      next
        case r2: (Inr r2)
        then show ?thesis
          using Inr True e1 assms c1 c2
          by (auto simp: set_airflow_variable_def raise_for_status_error response_json_def
              split: option.splits)
      qed
    qed
  qed
qed

text \<open>On an empty store the PATCH is not found, the POST creates the variable, and the
  operation returns.\<close>

theorem set_airflow_variable_update_or_create_witness:
  "calls (snd (set_airflow_variable default_config (airflow default_config) ''k'' ''false''
       (session_of [] []))) =
     [patch_request default_config ''k'' ''false'', post_request default_config ''k'' ''false'']
   \<and> (\<exists>j. fst (set_airflow_variable default_config (airflow default_config) ''k'' ''false''
       (session_of [] [])) = Inr j)"
proof -
  obtain a1 s1 where
    p: "send (airflow default_config) (patch_request default_config ''k'' ''false'')
          (session_of [] []) = (a1, s1)"
    by force
  obtain a2 s2 where
    q: "send (airflow default_config) (post_request default_config ''k'' ''false'') s1 = (a2, s2)"
    by force
  have a1: "a1 = Inr (plain_response 404)" and w1: "world s1 = \<lparr>variables = [], pending = []\<rparr>"
    using send_world [OF p] by (simp_all add: airflow_def serve_patch route_key_k session_of_def)
  have a2: "a2 = Inr (variable_response ''k'' (JString ''false''))"
    using send_world [OF q] w1 by (simp add: airflow_def serve_post)
  from set_airflow_variable_update_or_create [OF p q] a1 a2 show ?thesis
    by (simp add: plain_response_def variable_response_def error_status_def session_of_def)
qed

text \<open>
  C2. On the store, for every valid workflow identifier \<open>dag\<close>: when
  \<^verbatim>\<open>POST /api/acknowledge\<close> with \<open>dag\<close> answers 200, a following
  \<^verbatim>\<open>GET /api/acknowledge/status/dag\<close> that finds the variables as the acknowledgment
  left them, and reaches the store, answers 200 with \<open>alerts_enabled = false\<close> and
  \<open>acknowledged = true\<close>. And the acknowledgment does answer 200 for every valid
  workflow identifier when its calls reach the store. The identifier has to be valid
  because the relay pastes it into the URL as it is: with a \<open>?\<close> in it, the PATCH and
  the GET name another variable than the one the POST creates.
\<close>

theorem acknowledge_then_status:
  "(valid_dag_id dag
      \<and> acknowledge_post py cfg (airflow cfg) (Inr (JObject obj)) s = (r, s1)
      \<and> status r = 200
      \<and> map_of obj ''dag_id'' = Some (JString dag)
      \<and> variables (world s2) = variables (world s1)
      \<and> served_next (world s2)
    \<longrightarrow> fst (get_acknowledgment_status py cfg (airflow cfg) dag s2) =
          jsonify [(''dag_id'', JString dag), (''alerts_enabled'', JBool False),
                   (''acknowledged'', JBool True)] 200)
 \<and> (valid_dag_id dag \<and> map_of obj ''dag_id'' = Some (JString dag) \<and> pending (world s) = []
    \<longrightarrow> status (fst (acknowledge_post py cfg (airflow cfg) (Inr (JObject obj)) s)) = 200)"
proof -
  have a: "fst (get_acknowledgment_status py cfg (airflow cfg) dag s2) =
          jsonify [(''dag_id'', JString dag), (''alerts_enabled'', JBool False),
                   (''acknowledged'', JBool True)] 200"
    if v: "valid_dag_id dag"
      and h: "acknowledge_post py cfg (airflow cfg) (Inr (JObject obj)) s = (r, s1)"
      "status r = 200" "map_of obj ''dag_id'' = Some (JString dag)"
      "variables (world s2) = variables (world s1)" "served_next (world s2)"
  proof -
    from v have k: "route_key (var_key dag) = Some (var_key dag)"
      by (simp add: valid_dag_id_def route_key_var_key)
    from acknowledge_post_200 [OF h(1,2)] h(3) obtain j s0 where
      w: "set_airflow_variable cfg (airflow cfg) (var_key dag) ''false'' s = (Inr j, s0)"
      and e: "world s1 = world s0"
      by auto
    from set_airflow_variable_stored [OF w k] e h(4)
    have "map_of (variables (world s2)) (var_key dag) = Some (JString ''false'')" by simp
    from status_of_stored [OF k this h(5)] show ?thesis by (simp add: lower_false)
  qed
  have b: "status (fst (acknowledge_post py cfg (airflow cfg) (Inr (JObject obj)) s)) = 200"
    if v: "valid_dag_id dag"
      and h: "map_of obj ''dag_id'' = Some (JString dag)" "pending (world s) = []"
  proof -
    from v have "dag \<noteq> []" by (simp add: valid_dag_id_def)
    moreover from set_airflow_variable_served [OF h(2)] obtain j s0 where
      "set_airflow_variable cfg (airflow cfg) (var_key dag) ''false'' s = (Inr j, s0)"
      by (metis prod.collapse)
    ultimately show ?thesis
      using h(1) by (simp add: acknowledge_post_def acknowledge_post_try_def jsonify_def)
  qed
  from a b show ?thesis by blast
qed

text \<open>The workflow \<open>etl\<close>, acknowledged on an empty store (the PATCH is not found,
  the POST creates the flag), then read.\<close>

theorem acknowledge_then_status_witness:
  "valid_dag_id ''etl''
   \<and> status (fst (acknowledge_post example_builtins default_config (airflow default_config)
       (Inr (JObject [(''dag_id'', JString ''etl'')])) (session_of [] []))) = 200
   \<and> fst (get_acknowledgment_status example_builtins default_config (airflow default_config) ''etl''
       (snd (acknowledge_post example_builtins default_config (airflow default_config)
         (Inr (JObject [(''dag_id'', JString ''etl'')])) (session_of [] [])))) =
     jsonify [(''dag_id'', JString ''etl''), (''alerts_enabled'', JBool False),
              (''acknowledged'', JBool True)] 200"
proof -
  let ?ack = "acknowledge_post example_builtins default_config (airflow default_config)
       (Inr (JObject [(''dag_id'', JString ''etl'')])) (session_of [] [])"
  have valid: "valid_dag_id ''etl''"
    by (simp add: valid_dag_id_def url_safe_char_def)
  have ok: "status (fst ?ack) = 200" and served: "served_next (world (snd ?ack))"
    by (simp_all add: run_defs)
  have "valid_dag_id ''etl'' \<and> ?ack = (fst ?ack, snd ?ack) \<and> status (fst ?ack) = 200
      \<and> map_of [(''dag_id'', JString ''etl'')] ''dag_id'' = Some (JString ''etl'')
      \<and> variables (world (snd ?ack)) = variables (world (snd ?ack))
      \<and> served_next (world (snd ?ack))"
    using valid ok served by simp
  with acknowledge_then_status [of "''etl''" example_builtins default_config
      "[(''dag_id'', JString ''etl'')]" "session_of [] []"
      "fst ?ack" "snd ?ack" "snd ?ack"]
  show ?thesis using valid ok by blast
qed

text \<open>
  What \<^verbatim>\<open>acknowledge_post\<close> does without a \<open>dag_id\<close>. When the body is a JSON
  object with no \<open>dag_id\<close>, the handler answers 400 with the body
  \<^verbatim>\<open>{"status": "error", "message": "dag_id is required"}\<close> and leaves the session as
  it was. When \<^verbatim>\<open>get_json()\<close> gives anything but an object (or raises), no upstream
  call is made either.
\<close>

lemma acknowledge_post_object_without_dag_id:
  "(map_of obj ''dag_id'' = None \<longrightarrow>
      acknowledge_post py cfg u (Inr (JObject obj)) s =
        (jsonify [(''status'', JString ''error''),
                  (''message'', JString ''dag_id is required'')] 400, s))
   \<and> ((\<forall>kvs. got \<noteq> Inr (JObject kvs)) \<longrightarrow>
        calls (snd (acknowledge_post py cfg u got s)) = calls s
      \<and> world (snd (acknowledge_post py cfg u got s)) = world s)"
proof -
  have a: "acknowledge_post py cfg u (Inr (JObject obj)) s =
        (jsonify [(''status'', JString ''error''),
                  (''message'', JString ''dag_id is required'')] 400, s)"
    if "map_of obj ''dag_id'' = None"
    using that by (simp add: acknowledge_post_def acknowledge_post_try_def)
  have b: "calls (snd (acknowledge_post py cfg u got s)) = calls s
      \<and> world (snd (acknowledge_post py cfg u got s)) = world s"
    if "\<forall>kvs. got \<noteq> Inr (JObject kvs)"
  proof (cases got)
    case (Inl e)
    then show ?thesis
      by (simp add: acknowledge_post_def acknowledge_post_try_def jsonify_def logger_error_def)
  next
    case (Inr req)
    with that obtain e where "dict_get req ''dag_id'' JNull = Inl e"
      by (cases req) auto
    with Inr show ?thesis
      by (simp add: acknowledge_post_def acknowledge_post_try_def jsonify_def logger_error_def)
  qed
  from a b show ?thesis by blast
qed

text \<open>
  C3. Every \<^verbatim>\<open>POST /api/acknowledge\<close> whose body lacks a \<open>dag_id\<close> should be
  answered with 400 and a machine-readable error body, with no upstream call. The handler
  does so for the body \<^verbatim>\<open>{}\<close>, as \<^verbatim>\<open>acknowledge_get\<close> does for a query without
  \<open>dag_id\<close>. For the bodies \<^verbatim>\<open>[]\<close> and \<^verbatim>\<open>null\<close>, which lack a \<open>dag_id\<close>
  as well, \<^verbatim>\<open>req.get\<close> raises \<^verbatim>\<open>AttributeError\<close> before the check of
  \<open>dag_id\<close> is reached, and the answer is 500 with the text of that exception; no
  upstream call is made.
\<close>

theorem acknowledge_post_non_object_body:
  "fst (acknowledge_post example_builtins default_config (airflow default_config)
       (Inr (JArray [])) (session_of [] [])) =
     jsonify [(''status'', JString ''error''),
              (''message'', JString (quoted ''list'' @ '' object has no attribute ''
                 @ quoted ''get''))] 500
   \<and> calls (snd (acknowledge_post example_builtins default_config (airflow default_config)
       (Inr (JArray [])) (session_of [] []))) = []
   \<and> fst (acknowledge_post example_builtins default_config (airflow default_config)
       (Inr JNull) (session_of [] [])) =
     jsonify [(''status'', JString ''error''),
              (''message'', JString (quoted ''NoneType'' @ '' object has no attribute ''
                 @ quoted ''get''))] 500
   \<and> calls (snd (acknowledge_post example_builtins default_config (airflow default_config)
       (Inr JNull) (session_of [] []))) = []
   \<and> acknowledge_post example_builtins default_config (airflow default_config)
       (Inr (JObject [])) (session_of [] []) =
     (jsonify [(''status'', JString ''error''),
               (''message'', JString ''dag_id is required'')] 400, session_of [] [])
   \<and> acknowledge_get example_builtins default_config (airflow default_config)
       [] ''2024-01-01 00:00:00'' (session_of [] []) =
     (render_template_string (PageFailure ''Missing dag_id parameter'') 400, session_of [] [])"
  by (simp add: acknowledge_post_def acknowledge_post_try_def acknowledge_get_def
      acknowledge_get_try_def attribute_error_def example_builtins_def example_str_exc_def
      logger_error_def session_of_def)

text \<open>
  C4. When the upstream answers the read of the flag with 404,
  \<^verbatim>\<open>GET /api/acknowledge/status/dag\<close> answers 200 with \<open>alerts_enabled = true\<close> and
  \<open>acknowledged = false\<close>.
\<close>

theorem status_not_found_is_default:
  assumes "u (get_request cfg (var_key dag)) (world s) = (Inr r, w')"
      and "status_code r = 404"
  shows "fst (get_acknowledgment_status py cfg u dag s) =
           jsonify [(''dag_id'', JString dag), (''alerts_enabled'', JBool True),
                    (''acknowledged'', JBool False)] 200"
  using assms
  by (simp add: get_acknowledgment_status_def get_acknowledgment_status_try_def send_def)

text \<open>The workflow \<open>etl\<close> on an empty store.\<close>

theorem status_not_found_is_default_witness:
  "fst (get_acknowledgment_status example_builtins default_config (airflow default_config)
       ''etl'' (session_of [] [])) =
     jsonify [(''dag_id'', JString ''etl''), (''alerts_enabled'', JBool True),
              (''acknowledged'', JBool False)] 200"
proof -
  have h: "airflow default_config (get_request default_config (var_key ''etl''))
        (world (session_of [] [])) =
      (Inr (plain_response 404), \<lparr>variables = [], pending = []\<rparr>)"
    by (simp add: airflow_def serve_get session_of_def var_key_def route_key_etl)
  have c: "status_code (plain_response 404) = 404"
    by (simp add: plain_response_def)
  from status_not_found_is_default [where u = "airflow default_config" and cfg = default_config
      and dag = "''etl''" and s = "session_of [] []" and py = example_builtins, OF h c]
  show ?thesis .
qed

text \<open>
  C5. When the upstream answers the read with a response that is not an error and whose
  body is an object with the string \<open>v\<close> under \<open>value\<close>,
  \<^verbatim>\<open>GET /api/acknowledge/status/dag\<close> answers 200 with \<open>alerts_enabled\<close> true exactly
  when \<open>v\<close> in lower case is \<open>true\<close>, that is when \<open>v\<close> is \<open>true\<close> written in any mix of
  cases, and with \<open>acknowledged\<close> its negation. The value \<open>false\<close> means disabled.
\<close>

theorem status_reads_flag:
  assumes "u (get_request cfg (var_key dag)) (world s) = (Inr r, w')"
      and "\<not> error_status r"
      and "json_content r = Some (JObject kvs)"
      and "map_of kvs ''value'' = Some (JString v)"
  shows "fst (get_acknowledgment_status py cfg u dag s) =
           jsonify [(''dag_id'', JString dag), (''alerts_enabled'', JBool (lower v = ''true'')),
                    (''acknowledged'', JBool (\<not> (lower v = ''true'')))] 200
       \<and> (lower v = ''true'' \<longleftrightarrow>
            (\<exists>a b c d. v = [a, b, c, d] \<and> a \<in> {CHR ''t'', CHR ''T''}
               \<and> b \<in> {CHR ''r'', CHR ''R''} \<and> c \<in> {CHR ''u'', CHR ''U''}
               \<and> d \<in> {CHR ''e'', CHR ''E''}))
       \<and> lower ''false'' \<noteq> ''true''"
proof -
  have "status_code r \<noteq> 404"
    using assms(2) by (auto simp: error_status_def)
  then have "fst (get_acknowledgment_status py cfg u dag s) =
           jsonify [(''dag_id'', JString dag), (''alerts_enabled'', JBool (lower v = ''true'')),
                    (''acknowledged'', JBool (\<not> (lower v = ''true'')))] 200"
    using assms
    by (simp add: get_acknowledgment_status_def get_acknowledgment_status_try_def send_def
        raise_for_status_error response_json_def Let_def)
  then show ?thesis
    using lower_is_true [of v] by (simp add: lower_false)
qed

text \<open>A store that holds \<open>True\<close> for the workflow \<open>etl\<close>: alerts are enabled.\<close>

theorem status_reads_flag_witness:
  "fst (get_acknowledgment_status example_builtins default_config (airflow default_config)
       ''etl'' (session_of [(''twilio_alert_enabled_etl'', JString ''True'')] [])) =
     jsonify [(''dag_id'', JString ''etl''), (''alerts_enabled'', JBool True),
              (''acknowledged'', JBool False)] 200"
proof -
  let ?r = "variable_response ''twilio_alert_enabled_etl'' (JString ''True'')"
  have h: "airflow default_config (get_request default_config (var_key ''etl''))
        (world (session_of [(''twilio_alert_enabled_etl'', JString ''True'')] [])) =
      (Inr ?r, \<lparr>variables = [(''twilio_alert_enabled_etl'', JString ''True'')], pending = []\<rparr>)"
    by (simp add: airflow_def serve_get session_of_def var_key_def route_key_etl)
  have e: "\<not> error_status ?r"
    by (simp add: error_status_def variable_response_def)
  have j: "json_content ?r =
      Some (JObject [(''key'', JString ''twilio_alert_enabled_etl''), (''value'', JString ''True'')])"
    by (simp add: variable_response_def)
  have m: "map_of [(''key'', JString ''twilio_alert_enabled_etl''), (''value'', JString ''True'')]
      ''value'' = Some (JString ''True'')"
    by simp
  have l: "lower ''True'' = ''true''"
    by (simp add: lower_def lower_char_def char_of_def bit_Suc_0_iff)
  from status_reads_flag [where u = "airflow default_config" and cfg = default_config
      and dag = "''etl''" and py = example_builtins
      and s = "session_of [(''twilio_alert_enabled_etl'', JString ''True'')] []", OF h e j m] l
  show ?thesis by simp
qed

text \<open>
  C6. \<^verbatim>\<open>POST /api/acknowledge/reset/dag\<close> sets the flag of \<open>dag\<close> to the string
  \<open>true\<close>: its first upstream call is the PATCH of \<open>twilio_alert_enabled_dag\<close> with that
  value. When \<^verbatim>\<open>set_airflow_variable\<close> returns, the answer is 200 with a confirmation;
  when it raises, the answer is 500 with the text of the exception. On the store: after an
  acknowledgment that answered 200 and a reset that answered 200, a status read that
  reaches the store answers \<open>alerts_enabled = true\<close>.
\<close>

theorem reset_restores_alerts:
  "(\<exists>rest. calls (snd (reset_acknowledgment py cfg u dag s)) =
      calls s @ patch_request cfg (''twilio_alert_enabled_'' @ dag) ''true'' # rest)
 \<and> (fst (set_airflow_variable cfg u (var_key dag) ''true'' s) = Inr j \<longrightarrow>
      fst (reset_acknowledgment py cfg u dag s) =
        jsonify [(''success'', JBool True),
                 (''message'', JString (''Alerts re-enabled for DAG '' @ quoted dag))] 200)
 \<and> (fst (set_airflow_variable cfg u (var_key dag) ''true'' s) = Inl e \<longrightarrow>
      fst (reset_acknowledgment py cfg u dag s) =
        jsonify [(''success'', JBool False), (''error'', JString (str_exc py e))] 500)
 \<and> (acknowledge_post py cfg (airflow cfg) (Inr (JObject obj)) t = (ra, t1)
      \<and> status ra = 200
      \<and> map_of obj ''dag_id'' = Some (JString dag)
      \<and> variables (world t2) = variables (world t1)
      \<and> reset_acknowledgment py cfg (airflow cfg) dag t2 = (rr, t3)
      \<and> status rr = 200
      \<and> variables (world t4) = variables (world t3)
      \<and> served_next (world t4)
    \<longrightarrow> fst (get_acknowledgment_status py cfg (airflow cfg) dag t4) =
          jsonify [(''dag_id'', JString dag), (''alerts_enabled'', JBool True),
                   (''acknowledged'', JBool False)] 200)"
proof -
  have c: "calls (snd (reset_acknowledgment py cfg u dag s)) =
      calls (snd (set_airflow_variable cfg u (var_key dag) ''true'' s))"
    by (auto simp: reset_acknowledgment_def reset_acknowledgment_try_def logger_info_def
        logger_error_def split: prod.splits sum.splits)
  have a: "\<exists>rest. calls (snd (reset_acknowledgment py cfg u dag s)) =
      calls s @ patch_request cfg (''twilio_alert_enabled_'' @ dag) ''true'' # rest"
    using set_airflow_variable_calls [of cfg u "var_key dag" "''true''" s]
    by (simp add: c var_key_def)
  have ok: "fst (reset_acknowledgment py cfg u dag s) =
        jsonify [(''success'', JBool True),
                 (''message'', JString (''Alerts re-enabled for DAG '' @ quoted dag))] 200"
    if "fst (set_airflow_variable cfg u (var_key dag) ''true'' s) = Inr j"
    using that
    by (cases "set_airflow_variable cfg u (var_key dag) ''true'' s")
       (simp add: reset_acknowledgment_def reset_acknowledgment_try_def)
  have bad: "fst (reset_acknowledgment py cfg u dag s) =
        jsonify [(''success'', JBool False), (''error'', JString (str_exc py e))] 500"
    if "fst (set_airflow_variable cfg u (var_key dag) ''true'' s) = Inl e"
    using that
    by (cases "set_airflow_variable cfg u (var_key dag) ''true'' s")
       (simp add: reset_acknowledgment_def reset_acknowledgment_try_def)
  have trip: "fst (get_acknowledgment_status py cfg (airflow cfg) dag t4) =
          jsonify [(''dag_id'', JString dag), (''alerts_enabled'', JBool True),
                   (''acknowledged'', JBool False)] 200"
    if h: "reset_acknowledgment py cfg (airflow cfg) dag t2 = (rr, t3)" "status rr = 200"
      "variables (world t4) = variables (world t3)" "served_next (world t4)"
  proof -
    from reset_acknowledgment_200 [OF h(1,2)] obtain j0 s0 where
      w: "set_airflow_variable cfg (airflow cfg) (var_key dag) ''true'' t2 = (Inr j0, s0)"
      and e: "world t3 = world s0"
      by auto
    show ?thesis
    proof (cases "route_key (var_key dag)")
      case None
      then show ?thesis
        using status_of_absent [OF _ h(4)] by simp
    next
      case (Some k')
      from set_airflow_variable_stored [OF w Some] e h(3)
      consider "map_of (variables (world t4)) k' = Some (JString ''true'')"
        | "map_of (variables (world t4)) k' = None"
        by auto
      then show ?thesis
      proof cases
        case 1
        from status_of_stored [OF Some 1 h(4)] show ?thesis by (simp add: lower_true)
      next
        case 2
        with Some show ?thesis
          using status_of_absent [OF _ h(4)] by simp
      qed
    qed
  qed
  from a ok bad trip show ?thesis by blast
qed

text \<open>The workflow \<open>etl\<close>: acknowledged on an empty store, reset, then read. A reset whose
  PATCH finds no connection answers 500.\<close>

theorem reset_restores_alerts_witness:
  "fst (get_acknowledgment_status example_builtins default_config (airflow default_config) ''etl''
     (snd (reset_acknowledgment example_builtins default_config (airflow default_config) ''etl''
       (snd (acknowledge_post example_builtins default_config (airflow default_config)
         (Inr (JObject [(''dag_id'', JString ''etl'')])) (session_of [] [])))))) =
     jsonify [(''dag_id'', JString ''etl''), (''alerts_enabled'', JBool True),
              (''acknowledged'', JBool False)] 200
   \<and> fst (reset_acknowledgment example_builtins default_config (airflow default_config) ''etl''
       (session_of [] [Some (ConnectionFailure ''refused'')])) =
     jsonify [(''success'', JBool False), (''error'', JString ''refused'')] 500"
proof -
  let ?ack = "acknowledge_post example_builtins default_config (airflow default_config)
       (Inr (JObject [(''dag_id'', JString ''etl'')])) (session_of [] [])"
  let ?reset = "reset_acknowledgment example_builtins default_config (airflow default_config)
       ''etl'' (snd ?ack)"
  let ?down = "session_of [] [Some (ConnectionFailure ''refused'')]"
  have ack: "status (fst ?ack) = 200"
    by (simp add: run_defs)
  have reset: "status (fst ?reset) = 200" and served: "served_next (world (snd ?reset))"
    by (simp_all add: run_defs)
  have refused: "fst (set_airflow_variable default_config (airflow default_config)
      (var_key ''etl'') ''true'' ?down) = Inl (RequestException ''refused'')"
    by (simp add: run_defs)
  have hyps: "?ack = (fst ?ack, snd ?ack) \<and> status (fst ?ack) = 200
      \<and> map_of [(''dag_id'', JString ''etl'')] ''dag_id'' = Some (JString ''etl'')
      \<and> variables (world (snd ?ack)) = variables (world (snd ?ack))
      \<and> ?reset = (fst ?reset, snd ?reset) \<and> status (fst ?reset) = 200
      \<and> variables (world (snd ?reset)) = variables (world (snd ?reset))
      \<and> served_next (world (snd ?reset))"
    using ack reset served by simp
  have msg: "str_exc example_builtins (RequestException ''refused'') = ''refused''"
    by (simp add: example_builtins_def example_str_exc_def)
  from reset_restores_alerts [where py = example_builtins and cfg = default_config
      and u = "airflow default_config" and dag = "''etl''" and s = ?down
      and e = "RequestException ''refused''" and obj = "[(''dag_id'', JString ''etl'')]"
      and t = "session_of [] []" and ra = "fst ?ack" and ?t1.0 = "snd ?ack"
      and ?t2.0 = "snd ?ack" and rr = "fst ?reset" and ?t3.0 = "snd ?reset"
      and ?t4.0 = "snd ?reset"]
    hyps refused msg
  show ?thesis by metis
qed



text \<open>
  C8. Whatever exception the body of a handler's \<^verbatim>\<open>try\<close> raises, the handler catches
  it and answers 500 with the text of the exception, in the error body of that handler:
  \<^verbatim>\<open>{"status": "error", "message": ...}\<close> for \<^verbatim>\<open>acknowledge_post\<close>, the failure
  page for \<^verbatim>\<open>acknowledge_get\<close>, and \<^verbatim>\<open>{"success": false, "error": ...}\<close> for
  \<^verbatim>\<open>get_acknowledgment_status\<close> and \<^verbatim>\<open>reset_acknowledgment\<close>.
\<close>

theorem handler_errors_become_500:
  "(fst (acknowledge_post_try py cfg u got s) = Inl e \<longrightarrow>
      fst (acknowledge_post py cfg u got s) =
        jsonify [(''status'', JString ''error''), (''message'', JString (str_exc py e))] 500)
 \<and> (fst (acknowledge_get_try cfg u args now s) = Inl e \<longrightarrow>
      fst (acknowledge_get py cfg u args now s) =
        render_template_string (PageFailure (str_exc py e)) 500)
 \<and> (fst (get_acknowledgment_status_try cfg u dag s) = Inl e \<longrightarrow>
      fst (get_acknowledgment_status py cfg u dag s) =
        jsonify [(''success'', JBool False), (''error'', JString (str_exc py e))] 500)
 \<and> (fst (reset_acknowledgment_try cfg u dag s) = Inl e \<longrightarrow>
      fst (reset_acknowledgment py cfg u dag s) =
        jsonify [(''success'', JBool False), (''error'', JString (str_exc py e))] 500)"
  by (auto simp: acknowledge_post_def acknowledge_get_def get_acknowledgment_status_def
      reset_acknowledgment_def split: prod.splits)

text \<open>An upstream that refuses the connection makes all four handlers raise.\<close>

theorem handler_errors_become_500_witness:
  "fst (acknowledge_post example_builtins default_config (airflow default_config)
       (Inr (JObject [(''dag_id'', JString ''etl'')]))
       (session_of [] [Some (ConnectionFailure ''refused'')])) =
     jsonify [(''status'', JString ''error''), (''message'', JString ''refused'')] 500
   \<and> fst (acknowledge_get example_builtins default_config (airflow default_config)
       [(''dag_id'', ''etl'')] ''2024-01-01 00:00:00''
       (session_of [] [Some (ConnectionFailure ''refused'')])) =
     render_template_string (PageFailure ''refused'') 500
   \<and> fst (get_acknowledgment_status example_builtins default_config (airflow default_config)
       ''etl'' (session_of [] [Some (ConnectionFailure ''refused'')])) =
     jsonify [(''success'', JBool False), (''error'', JString ''refused'')] 500
   \<and> fst (reset_acknowledgment example_builtins default_config (airflow default_config)
       ''etl'' (session_of [] [Some (ConnectionFailure ''refused'')])) =
     jsonify [(''success'', JBool False), (''error'', JString ''refused'')] 500"
proof -
  let ?down = "session_of [] [Some (ConnectionFailure ''refused'')]"
  have raised:
    "fst (acknowledge_post_try example_builtins default_config (airflow default_config)
       (Inr (JObject [(''dag_id'', JString ''etl'')])) ?down) = Inl (RequestException ''refused'')"
    "fst (acknowledge_get_try default_config (airflow default_config)
       [(''dag_id'', ''etl'')] ''2024-01-01 00:00:00'' ?down) = Inl (RequestException ''refused'')"
    "fst (get_acknowledgment_status_try default_config (airflow default_config) ''etl'' ?down) =
       Inl (RequestException ''refused'')"
    "fst (reset_acknowledgment_try default_config (airflow default_config) ''etl'' ?down) =
       Inl (RequestException ''refused'')"
    by (simp_all add: run_defs)
  have msg: "str_exc example_builtins (RequestException ''refused'') = ''refused''"
    by (simp add: example_builtins_def example_str_exc_def)
  from handler_errors_become_500 [where py = example_builtins and cfg = default_config
      and u = "airflow default_config" and s = ?down and e = "RequestException ''refused''"
      and got = "Inr (JObject [(''dag_id'', JString ''etl'')])"
      and args = "[(''dag_id'', ''etl'')]" and now = "''2024-01-01 00:00:00''"
      and dag = "''etl''"]
    raised msg
  show ?thesis by simp
qed

text \<open>The claim as it is written asks for one error body across the handlers. With the
  same refused connection, \<^verbatim>\<open>acknowledge_post\<close> answers 500 with the keys \<open>status\<close> and
  \<open>message\<close>, and \<^verbatim>\<open>get_acknowledgment_status\<close> answers 500 with the keys \<open>success\<close>
  and \<open>error\<close>.\<close>

theorem handler_errors_become_500_counterexample:
  "status (fst (acknowledge_post example_builtins default_config (airflow default_config)
       (Inr (JObject [(''dag_id'', JString ''etl'')]))
       (session_of [] [Some (ConnectionFailure ''refused'')]))) = 500
 \<and> status (fst (get_acknowledgment_status example_builtins default_config (airflow default_config)
       ''etl'' (session_of [] [Some (ConnectionFailure ''refused'')]))) = 500
 \<and> shape_of (content (fst (acknowledge_post example_builtins default_config
       (airflow default_config) (Inr (JObject [(''dag_id'', JString ''etl'')]))
       (session_of [] [Some (ConnectionFailure ''refused'')]))))
   \<noteq> shape_of (content (fst (get_acknowledgment_status example_builtins default_config
       (airflow default_config) ''etl'' (session_of [] [Some (ConnectionFailure ''refused'')]))))"
  by (simp add: run_defs)

text \<open>
  C9. Two acknowledgments that differ in nothing but their \<open>task_id\<close>, by POST or by GET,
  send the same upstream calls and leave the upstream in the same state. When the
  \<open>dag_id\<close> is present, the first call is the PATCH of \<open>twilio_alert_enabled_\<close> followed
  by the \<open>dag_id\<close>, with the value \<open>false\<close>.
\<close>

theorem task_id_never_reaches_upstream:
  "((\<forall>k. k \<noteq> ''task_id'' \<longrightarrow> map_of obj1 k = map_of obj2 k) \<longrightarrow>
      calls (snd (acknowledge_post py cfg u (Inr (JObject obj1)) s)) =
        calls (snd (acknowledge_post py cfg u (Inr (JObject obj2)) s))
    \<and> world (snd (acknowledge_post py cfg u (Inr (JObject obj1)) s)) =
        world (snd (acknowledge_post py cfg u (Inr (JObject obj2)) s)))
 \<and> ((\<forall>k. k \<noteq> ''task_id'' \<longrightarrow> map_of args1 k = map_of args2 k) \<longrightarrow>
      calls (snd (acknowledge_get py cfg u args1 now s)) =
        calls (snd (acknowledge_get py cfg u args2 now s))
    \<and> world (snd (acknowledge_get py cfg u args1 now s)) =
        world (snd (acknowledge_get py cfg u args2 now s)))
 \<and> (map_of obj1 ''dag_id'' = Some d \<and> truthy d \<longrightarrow>
      (\<exists>rest. calls (snd (acknowledge_post py cfg u (Inr (JObject obj1)) s)) =
         calls s @ patch_request cfg (''twilio_alert_enabled_'' @ py_format py d) ''false'' # rest))
 \<and> (map_of args1 ''dag_id'' = Some dag \<and> dag \<noteq> [] \<longrightarrow>
      (\<exists>rest. calls (snd (acknowledge_get py cfg u args1 now s)) =
         calls s @ patch_request cfg (''twilio_alert_enabled_'' @ dag) ''false'' # rest))"
proof -
  have post_calls: "calls (snd (acknowledge_post py cfg u (Inr (JObject obj)) s)) =
      (case map_of obj ''dag_id'' of None \<Rightarrow> calls s
       | Some d \<Rightarrow> if truthy d
           then calls (snd (set_airflow_variable cfg u (var_key (py_format py d)) ''false'' s))
           else calls s)
    \<and> world (snd (acknowledge_post py cfg u (Inr (JObject obj)) s)) =
      (case map_of obj ''dag_id'' of None \<Rightarrow> world s
       | Some d \<Rightarrow> if truthy d
           then world (snd (set_airflow_variable cfg u (var_key (py_format py d)) ''false'' s))
           else world s)" for obj
    by (auto simp: acknowledge_post_def acknowledge_post_try_def logger_info_def logger_error_def
        split: option.splits prod.splits sum.splits)
  have get_calls: "calls (snd (acknowledge_get py cfg u args now s)) =
      (case map_of args ''dag_id'' of None \<Rightarrow> calls s
       | Some d \<Rightarrow> if d \<noteq> []
           then calls (snd (set_airflow_variable cfg u (var_key d) ''false'' s))
           else calls s)
    \<and> world (snd (acknowledge_get py cfg u args now s)) =
      (case map_of args ''dag_id'' of None \<Rightarrow> world s
       | Some d \<Rightarrow> if d \<noteq> []
           then world (snd (set_airflow_variable cfg u (var_key d) ''false'' s))
           else world s)" for args
    by (auto simp: acknowledge_get_def acknowledge_get_try_def logger_info_def logger_error_def
        Let_def split: option.splits prod.splits sum.splits)
  have a: "calls (snd (acknowledge_post py cfg u (Inr (JObject obj1)) s)) =
        calls (snd (acknowledge_post py cfg u (Inr (JObject obj2)) s))
    \<and> world (snd (acknowledge_post py cfg u (Inr (JObject obj1)) s)) =
        world (snd (acknowledge_post py cfg u (Inr (JObject obj2)) s))"
    if "\<forall>k. k \<noteq> ''task_id'' \<longrightarrow> map_of obj1 k = map_of obj2 k"
  proof -
    from that have "map_of obj1 ''dag_id'' = map_of obj2 ''dag_id''" by simp
    then show ?thesis by (simp add: post_calls)
  qed
  have b: "calls (snd (acknowledge_get py cfg u args1 now s)) =
        calls (snd (acknowledge_get py cfg u args2 now s))
    \<and> world (snd (acknowledge_get py cfg u args1 now s)) =
        world (snd (acknowledge_get py cfg u args2 now s))"
    if "\<forall>k. k \<noteq> ''task_id'' \<longrightarrow> map_of args1 k = map_of args2 k"
  proof -
    from that have "map_of args1 ''dag_id'' = map_of args2 ''dag_id''" by simp
    then show ?thesis by (simp add: get_calls)
  qed
  have c: "\<exists>rest. calls (snd (acknowledge_post py cfg u (Inr (JObject obj1)) s)) =
         calls s @ patch_request cfg (''twilio_alert_enabled_'' @ py_format py d) ''false'' # rest"
    if "map_of obj1 ''dag_id'' = Some d \<and> truthy d"
    using that set_airflow_variable_calls [of cfg u "var_key (py_format py d)" "''false''" s]
    by (simp add: post_calls var_key_def)
  have d: "\<exists>rest. calls (snd (acknowledge_get py cfg u args1 now s)) =
         calls s @ patch_request cfg (''twilio_alert_enabled_'' @ dag) ''false'' # rest"
    if "map_of args1 ''dag_id'' = Some dag \<and> dag \<noteq> []"
    using that set_airflow_variable_calls [of cfg u "var_key dag" "''false''" s]
    by (simp add: get_calls var_key_def)
  from a b c d show ?thesis by blast
qed

text \<open>The workflow \<open>etl\<close>, acknowledged for the unit \<open>load\<close> and for no unit.\<close>

theorem task_id_never_reaches_upstream_witness:
  "calls (snd (acknowledge_post example_builtins default_config (airflow default_config)
       (Inr (JObject [(''dag_id'', JString ''etl''), (''task_id'', JString ''load'')]))
       (session_of [] []))) =
     calls (snd (acknowledge_post example_builtins default_config (airflow default_config)
       (Inr (JObject [(''dag_id'', JString ''etl'')])) (session_of [] [])))
   \<and> calls (snd (acknowledge_get example_builtins default_config (airflow default_config)
       [(''dag_id'', ''etl''), (''task_id'', ''load'')] ''2024-01-01 00:00:00''
       (session_of [] []))) =
     calls (snd (acknowledge_get example_builtins default_config (airflow default_config)
       [(''dag_id'', ''etl'')] ''2024-01-01 00:00:00'' (session_of [] [])))
   \<and> (\<exists>rest. calls (snd (acknowledge_post example_builtins default_config
       (airflow default_config)
       (Inr (JObject [(''dag_id'', JString ''etl''), (''task_id'', JString ''load'')]))
       (session_of [] []))) =
         patch_request default_config ''twilio_alert_enabled_etl'' ''false'' # rest)
   \<and> (\<exists>rest. calls (snd (acknowledge_get example_builtins default_config
       (airflow default_config)
       [(''dag_id'', ''etl''), (''task_id'', ''load'')] ''2024-01-01 00:00:00''
       (session_of [] []))) =
         patch_request default_config ''twilio_alert_enabled_etl'' ''false'' # rest)"
proof -
  have h1: "\<forall>k. k \<noteq> ''task_id'' \<longrightarrow>
      map_of [(''dag_id'', JString ''etl''), (''task_id'', JString ''load'')] k =
      map_of [(''dag_id'', JString ''etl'')] k"
    by simp
  have h2: "\<forall>k. k \<noteq> ''task_id'' \<longrightarrow>
      map_of [(''dag_id'', ''etl''), (''task_id'', ''load'')] k =
      map_of [(''dag_id'', ''etl'')] k"
    by simp
  have h3: "map_of [(''dag_id'', JString ''etl''), (''task_id'', JString ''load'')] ''dag_id'' =
      Some (JString ''etl'') \<and> truthy (JString ''etl'')"
    by simp
  have h4: "map_of [(''dag_id'', ''etl''), (''task_id'', ''load'')] ''dag_id'' = Some ''etl''
      \<and> ''etl'' \<noteq> []"
    by simp
  have e: "calls (session_of [] [] :: store session) = []"
    by (simp add: session_of_def)
  note inst = task_id_never_reaches_upstream [where py = example_builtins
      and cfg = default_config and u = "airflow default_config" and s = "session_of [] []"
      and ?obj1.0 = "[(''dag_id'', JString ''etl''), (''task_id'', JString ''load'')]"
      and ?obj2.0 = "[(''dag_id'', JString ''etl'')]"
      and ?args1.0 = "[(''dag_id'', ''etl''), (''task_id'', ''load'')]"
      and ?args2.0 = "[(''dag_id'', ''etl'')]" and now = "''2024-01-01 00:00:00''"
      and d = "JString ''etl''" and dag = "''etl''"]
  from inst h1 have a: "calls (snd (acknowledge_post example_builtins default_config
       (airflow default_config)
       (Inr (JObject [(''dag_id'', JString ''etl''), (''task_id'', JString ''load'')]))
       (session_of [] []))) =
     calls (snd (acknowledge_post example_builtins default_config (airflow default_config)
       (Inr (JObject [(''dag_id'', JString ''etl'')])) (session_of [] [])))"
    by blast
  from inst h2 have b: "calls (snd (acknowledge_get example_builtins default_config
       (airflow default_config)
       [(''dag_id'', ''etl''), (''task_id'', ''load'')] ''2024-01-01 00:00:00''
       (session_of [] []))) =
     calls (snd (acknowledge_get example_builtins default_config (airflow default_config)
       [(''dag_id'', ''etl'')] ''2024-01-01 00:00:00'' (session_of [] [])))"
    by blast
  from inst h3 have c: "\<exists>rest. calls (snd (acknowledge_post example_builtins default_config
       (airflow default_config)
       (Inr (JObject [(''dag_id'', JString ''etl''), (''task_id'', JString ''load'')]))
       (session_of [] []))) =
     calls (session_of [] []) @ patch_request default_config
       (''twilio_alert_enabled_'' @ py_format example_builtins (JString ''etl'')) ''false'' # rest"
    by blast
  from inst h4 have d: "\<exists>rest. calls (snd (acknowledge_get example_builtins default_config
       (airflow default_config)
       [(''dag_id'', ''etl''), (''task_id'', ''load'')] ''2024-01-01 00:00:00''
       (session_of [] []))) =
     calls (session_of [] []) @ patch_request default_config
       (''twilio_alert_enabled_'' @ ''etl'') ''false'' # rest"
    by blast
  from a b c d show ?thesis by (simp add: e)
qed

text \<open>
  C10. A \<open>dag_id\<close> that is the empty string is answered as a missing one: by
  \<^verbatim>\<open>POST /api/acknowledge\<close> with the 400 of the missing identifier, by
  \<^verbatim>\<open>GET /api/acknowledge\<close> with the 400 page, each time leaving the session as it was
  (no upstream call, no key built), and each time with the answer the same request
  without its \<open>dag_id\<close> gets.
\<close>

theorem empty_dag_id_is_missing:
  "(map_of obj ''dag_id'' = Some (JString []) \<longrightarrow>
      acknowledge_post py cfg u (Inr (JObject obj)) s =
        (jsonify [(''status'', JString ''error''),
                  (''message'', JString ''dag_id is required'')] 400, s)
    \<and> acknowledge_post py cfg u (Inr (JObject obj)) s =
        acknowledge_post py cfg u (Inr (JObject (AList.delete ''dag_id'' obj))) s)
 \<and> (map_of args ''dag_id'' = Some [] \<longrightarrow>
      acknowledge_get py cfg u args now s =
        (render_template_string (PageFailure ''Missing dag_id parameter'') 400, s)
    \<and> acknowledge_get py cfg u args now s =
        acknowledge_get py cfg u (AList.delete ''dag_id'' args) now s)"
  by (simp add: acknowledge_post_def acknowledge_post_try_def acknowledge_get_def
      acknowledge_get_try_def delete_conv')

text \<open>An empty \<open>dag_id\<close> beside a \<open>task_id\<close>.\<close>

theorem empty_dag_id_is_missing_witness:
  "acknowledge_post example_builtins default_config (airflow default_config)
       (Inr (JObject [(''dag_id'', JString []), (''task_id'', JString ''load'')]))
       (session_of [] []) =
     (jsonify [(''status'', JString ''error''),
               (''message'', JString ''dag_id is required'')] 400, session_of [] [])
   \<and> acknowledge_get example_builtins default_config (airflow default_config)
       [(''dag_id'', []), (''task_id'', ''load'')] ''2024-01-01 00:00:00'' (session_of [] []) =
     (render_template_string (PageFailure ''Missing dag_id parameter'') 400, session_of [] [])"
  using empty_dag_id_is_missing [where py = example_builtins and cfg = default_config
      and u = "airflow default_config" and s = "session_of [] []"
      and obj = "[(''dag_id'', JString []), (''task_id'', JString ''load'')]"
      and args = "[(''dag_id'', []), (''task_id'', ''load'')]"
      and now = "''2024-01-01 00:00:00''"]
  by simp

end
